theory Spec2Isabelle
  imports Complex_Main
begin

section \<open>CompressorInstance.cpp: the data\<close>

text \<open>
  The translation unit \<^verbatim>\<open>src/effects/CompressorInstance.cpp\<close> is embedded function by
  function. Sample values and decibel levels (C++ \<^verbatim>\<open>float\<close> and \<^verbatim>\<open>double\<close>) are real
  numbers here: rounding, NaN and the infinities are outside the model, with two
  exceptions. The \<open>-infinity\<close> that \<^verbatim>\<open>GetMaxDbIncrease\<close> returns has a constructor of its
  own, and \<open>GetLatency_double\<close> rounds as \<^verbatim>\<open>double\<close> arithmetic does, because the integer
  it returns depends on the rounding.
  \<^verbatim>\<open>size_t\<close> values are natural numbers. The source's names are kept; its \<^verbatim>\<open>group\<close>,
  \<^verbatim>\<open>in\<close> and \<^verbatim>\<open>out\<close> are written \<open>grp\<close>, \<open>inBuf\<close> and \<open>outBuf\<close>.

  Undefined behaviour of the C++ is an error value: the dereference of a failed cast in
  \<^verbatim>\<open>GetDynamicRangeProcessorSettings\<close>, a read past the end of a sample buffer, and the
  conversion to an integer of a \<^verbatim>\<open>double\<close> that is not finite.
\<close>

datatype error = NullPointerDereference | BufferOverread | UnrepresentableConversion

text \<open>
  Modelled from the spec: the declaration of \<^verbatim>\<open>DynamicRangeProcessorSettings\<close> is missing.
  The source reads \<^verbatim>\<open>inCompressionThreshDb\<close>, \<^verbatim>\<open>outCompressionThreshDb\<close> and
  \<^verbatim>\<open>lookaheadMs\<close>; the other fields are the ratio, knee and attack/release times the
  spec lists for a settings snapshot.
\<close>

record DynamicRangeProcessorSettings =
  inCompressionThreshDb :: real
  outCompressionThreshDb :: real
  kneeWidthDb :: real
  compressionRatio :: real
  lookaheadMs :: real
  attackMs :: real
  releaseMs :: real

text \<open>
  \<^verbatim>\<open>EffectSettings\<close> is an opaque, type-erased snapshot; \<^verbatim>\<open>settings.cast<T>()\<close> yields a
  pointer to the held value when the snapshot holds a \<^verbatim>\<open>T\<close> and a null pointer otherwise.
  The two variant types are declared outside this file and stay type parameters.
\<close>

datatype ('c, 'l) EffectSettings =
  HoldsCompressorSettings 'c
| HoldsLimiterSettings 'l
| HoldsNeither

fun cast_CompressorSettings :: "('c, 'l) EffectSettings \<Rightarrow> 'c option" where
  "cast_CompressorSettings (HoldsCompressorSettings c) = Some c"
| "cast_CompressorSettings (HoldsLimiterSettings l) = None"
| "cast_CompressorSettings HoldsNeither = None"

fun cast_LimiterSettings :: "('c, 'l) EffectSettings \<Rightarrow> 'l option" where
  "cast_LimiterSettings (HoldsCompressorSettings c) = None"
| "cast_LimiterSettings (HoldsLimiterSettings l) = Some l"
| "cast_LimiterSettings HoldsNeither = None"

text \<open>The statistics of the last processed frame, as \<^verbatim>\<open>GetLastFrameStats\<close> returns them.\<close>

record FrameStats =
  maxInputSampleDb :: real
  dbAttenuationOfMaxInputSample :: real

text \<open>
  Modelled from the spec: the declaration of the packet type of
  \<^verbatim>\<open>DynamicRangeProcessorOutputs\<close> is missing; the spec gives a StatisticsPacket the three
  fields the source assigns. The index is the sample counter's value, a natural number.
\<close>

record StatisticsPacket =
  indexOfFirstSample :: nat
  targetCompressionDb :: real
  actualCompressionDb :: real

text \<open>
  \<^verbatim>\<open>EffectOutputs* pOutputs\<close>: null, or the address of an object whose dynamic type is
  \<^verbatim>\<open>DynamicRangeProcessorOutputs\<close> or something else. \<^verbatim>\<open>dynamic_cast\<close> keeps the first kind.
\<close>

datatype EffectOutputsPtr =
  NullOutputs
| DynamicRangeProcessorOutputsAt nat
| OtherOutputsAt nat

fun dynamic_cast_DynamicRangeProcessorOutputs :: "EffectOutputsPtr \<Rightarrow> nat option" where
  "dynamic_cast_DynamicRangeProcessorOutputs NullOutputs = None"
| "dynamic_cast_DynamicRangeProcessorOutputs (DynamicRangeProcessorOutputsAt a) = Some a"
| "dynamic_cast_DynamicRangeProcessorOutputs (OtherOutputsAt a) = None"

text \<open>
  The collaborators this file calls and does not define: the converting constructors of
  \<^verbatim>\<open>DynamicRangeProcessorSettings\<close>, the \<^verbatim>\<open>CompressorProcessor\<close> class (type \<open>'p\<close>, with
  its default construction and its member functions), the default block size of
  \<^verbatim>\<open>EffectInstanceWithBlockSize\<close>, and the growth policy of \<^verbatim>\<open>std::vector\<close>
  (\<open>vectorGrowth c\<close> is the capacity the library chooses when a vector of capacity \<open>c\<close>
  is full and an element is added). They are parameters of every function below.
  \<open>Process\<close> takes the input block, the output block as it is before the call and the
  block length, and returns the processor and the output block after the call.
\<close>

record ('c, 'l, 'p) collaborators =
  fromCompressorSettings :: "'c \<Rightarrow> DynamicRangeProcessorSettings"
  fromLimiterSettings :: "'l \<Rightarrow> DynamicRangeProcessorSettings"
  newCompressorProcessor :: 'p
  ApplySettingsIfNeeded :: "DynamicRangeProcessorSettings \<Rightarrow> 'p \<Rightarrow> 'p"
  Init :: "real \<Rightarrow> nat \<Rightarrow> nat \<Rightarrow> 'p \<Rightarrow> 'p"
  Reinit :: "'p \<Rightarrow> 'p"
  Process :: "real list list \<Rightarrow> real list list \<Rightarrow> nat \<Rightarrow> 'p \<Rightarrow> 'p \<times> real list list"
  GetLastFrameStats :: "'p \<Rightarrow> FrameStats"
  GetSettings :: "'p \<Rightarrow> DynamicRangeProcessorSettings"
  EvaluateTransferFunction :: "'p \<Rightarrow> real \<Rightarrow> real"
  defaultBlockSize :: nat
  vectorGrowth :: "nat \<Rightarrow> nat"

text \<open>
  A \<^verbatim>\<open>CompressorInstance\<close>. The slaves of the realtime path are instances themselves
  (\<^verbatim>\<open>std::vector<CompressorInstance> mSlaves\<close>); \<open>mSlaves_capacity\<close> is the capacity of
  that vector, which decides whether \<^verbatim>\<open>emplace_back\<close> moves the elements to new storage.
  \<open>mpOutputs\<close> is a non-owning pointer: the
  address of a \<^verbatim>\<open>DynamicRangeProcessorOutputs\<close> object of the host, or null.
  \<open>mBlockSize\<close> is the field behind \<^verbatim>\<open>SetBlockSize\<close> and \<^verbatim>\<open>GetBlockSize\<close>.

  Modelled from the spec: the declarations of the fields are in \<^verbatim>\<open>CompressorInstance.h\<close>,
  which is missing. The spec has a monotonically increasing sample counter per context;
  it is a natural number here, with no upper bound.
\<close>

datatype 'p CompressorInstance =
  CompressorInstance
    (mCompressor: 'p)
    (mSlaves: "'p CompressorInstance list")
    (mSlaves_capacity: nat)
    (mSampleCounter: nat)
    (mSampleRate: "real option")
    (mpOutputs: "nat option")
    (mBlockSize: nat)

text \<open>What the two publishers of the instance have sent to their subscribers.\<close>

datatype notification =
  PublishInitializeProcessingSettings "real option"
| PublishRealtimeResume

text \<open>
  The state the member functions act on: the instance, the packet vectors of the host's
  \<^verbatim>\<open>DynamicRangeProcessorOutputs\<close> objects by address (two slaves may hold the same
  address), and the notifications published so far. Every address holds a packet vector:
  the host keeps the objects it hands to \<^verbatim>\<open>RealtimeAddProcessor\<close> alive.
\<close>

record 'p world =
  instance_of :: "'p CompressorInstance"
  packets :: "nat \<Rightarrow> StatisticsPacket list"
  published :: "notification list"

section \<open>CompressorInstance.cpp: the functions\<close>

text \<open>
  Modelled from the spec: the default member initialisers of \<^verbatim>\<open>CompressorInstance.h\<close> are
  missing. The constructor of the source creates the processor; a new context has no
  slaves (an empty vector of capacity 0), no sample rate and no sink, and its sample
  counter starts at 0 (the spec's scenario: the first packet of a new context has
  \<open>indexOfFirstSample = 0\<close>).
\<close>

definition construct :: "('c, 'l, 'p) collaborators \<Rightarrow> 'p CompressorInstance" where
  "construct env =
     CompressorInstance (newCompressorProcessor env) [] 0 0 None None (defaultBlockSize env)"

text \<open>
  The move constructor (lines 23 to 28 of the source) takes over the processor and the
  slaves of \<open>other\<close>. It names no other member, so the sample counter, the sample rate,
  the sink and the block size of the new object are the defaults of \<open>construct\<close> (modelled
  from the spec, the header being missing), not the values of \<open>other\<close>.
\<close>

definition move_construct ::
  "('c, 'l, 'p) collaborators \<Rightarrow> 'p CompressorInstance \<Rightarrow> 'p CompressorInstance" where
  "move_construct env other =
     CompressorInstance (mCompressor other) (mSlaves other) (mSlaves_capacity other)
       0 None None (defaultBlockSize env)"

text \<open>
  \<^verbatim>\<open>mSlaves.emplace_back(...)\<close>: with room left the new element is constructed behind the
  others. When the vector is full it allocates new storage and every element is
  re-created there by the move constructor (the class has no copy constructor), after
  which the old elements are destroyed. The result is the vector and its capacity.
\<close>

definition emplace_back ::
  "('c, 'l, 'p) collaborators \<Rightarrow> 'p CompressorInstance list \<Rightarrow> nat \<Rightarrow> 'p CompressorInstance
     \<Rightarrow> 'p CompressorInstance list \<times> nat" where
  "emplace_back env elements capacity element =
     (if length elements < capacity then (elements @ [element], capacity)
      else (map (move_construct env) elements @ [element],
            max (Suc (length elements)) (vectorGrowth env capacity)))"

definition GetDynamicRangeProcessorSettings ::
  "('c, 'l, 'p) collaborators \<Rightarrow> ('c, 'l) EffectSettings
     \<Rightarrow> error + DynamicRangeProcessorSettings" where
  "GetDynamicRangeProcessorSettings env settings =
     (case cast_CompressorSettings settings of
        Some pSettings \<Rightarrow> Inr (fromCompressorSettings env pSettings)
      | None \<Rightarrow>
          (case cast_LimiterSettings settings of
             Some pLimiter \<Rightarrow> Inr (fromLimiterSettings env pLimiter)
           | None \<Rightarrow> Inl NullPointerDereference))"

text \<open>The result of \<^verbatim>\<open>GetMaxDbIncrease\<close>: \<open>-infinity\<close>, or a finite number of decibels.\<close>

datatype decibels = MinusInfinity | Decibels real

text \<open>
  The loop of \<^verbatim>\<open>GetMaxDbIncrease\<close>, from index \<open>i\<close> with the running \<open>leastRatio\<close>.
  \<open>inBuf ! i\<close> is read at every index below \<open>blockLen\<close>, \<open>outBuf ! i\<close> only where the
  input magnitude is not below \<open>1e-6\<close>.
\<close>

function GetMaxDbIncrease_loop ::
  "real list \<Rightarrow> real list \<Rightarrow> nat \<Rightarrow> nat \<Rightarrow> real \<Rightarrow> error + real" where
  "GetMaxDbIncrease_loop inBuf outBuf blockLen i leastRatio =
     (if i < blockLen then
        (if length inBuf \<le> i then Inl BufferOverread
         else if \<bar>inBuf ! i\<bar> < 1 / 1000000 then
           GetMaxDbIncrease_loop inBuf outBuf blockLen (i + 1) leastRatio
         else if length outBuf \<le> i then Inl BufferOverread
         else
           GetMaxDbIncrease_loop inBuf outBuf blockLen (i + 1)
             (max (\<bar>outBuf ! i\<bar> / \<bar>inBuf ! i\<bar>) leastRatio))
      else Inr leastRatio)"
  by pat_completeness auto
termination
  by (relation "measure (\<lambda>(inBuf, outBuf, blockLen, i, leastRatio). blockLen - i)") auto

declare GetMaxDbIncrease_loop.simps [simp del]

text \<open>
  \<^verbatim>\<open>log2ToDb\<close> and \<^verbatim>\<open>FastLog2\<close> come from \<^verbatim>\<open>MathApprox.h\<close>, which is not part of the
  sources; they are parameters.
\<close>

definition GetMaxDbIncrease ::
  "real \<Rightarrow> (real \<Rightarrow> real) \<Rightarrow> real list \<Rightarrow> real list \<Rightarrow> nat \<Rightarrow> error + decibels" where
  "GetMaxDbIncrease log2ToDb FastLog2 inBuf outBuf blockLen =
     (case GetMaxDbIncrease_loop inBuf outBuf blockLen 0 0 of
        Inl e \<Rightarrow> Inl e
      | Inr leastRatio \<Rightarrow>
          Inr (if leastRatio = 0 then MinusInfinity
               else Decibels (log2ToDb * FastLog2 leastRatio)))"

text \<open>
  \<^verbatim>\<open>InstanceInit\<close> runs on the master (\<open>blockSize\<close> is its \<^verbatim>\<open>GetBlockSize()\<close>) and
  initialises \<open>inst\<close>, the master itself or its newest slave.
\<close>

definition InstanceInit ::
  "('c, 'l, 'p) collaborators \<Rightarrow> nat \<Rightarrow> ('c, 'l) EffectSettings \<Rightarrow> nat option
     \<Rightarrow> 'p CompressorInstance \<Rightarrow> nat \<Rightarrow> real \<Rightarrow> error + 'p CompressorInstance" where
  "InstanceInit env blockSize settings pOutputs inst numChannels sampleRate =
     (case GetDynamicRangeProcessorSettings env settings of
        Inl e \<Rightarrow> Inl e
      | Inr drpSettings \<Rightarrow>
          Inr (CompressorInstance
                 (Init env sampleRate numChannels blockSize
                    (ApplySettingsIfNeeded env drpSettings (mCompressor inst)))
                 (mSlaves inst) (mSlaves_capacity inst) (mSampleCounter inst)
                 (mSampleRate inst) pOutputs (mBlockSize inst)))"

definition InstanceProcess ::
  "('c, 'l, 'p) collaborators \<Rightarrow> ('c, 'l) EffectSettings \<Rightarrow> 'p
     \<Rightarrow> real list list \<Rightarrow> real list list \<Rightarrow> nat \<Rightarrow> error + (nat \<times> real list list \<times> 'p)" where
  "InstanceProcess env settings processor inBlock outBlock blockLen =
     (case GetDynamicRangeProcessorSettings env settings of
        Inl e \<Rightarrow> Inl e
      | Inr drpSettings \<Rightarrow>
          (case Process env inBlock outBlock blockLen
                  (ApplySettingsIfNeeded env drpSettings processor) of
             (processor', outBlock') \<Rightarrow> Inr (blockLen, outBlock', processor')))"

definition GetAudioOutCount :: nat where
  "GetAudioOutCount = 2"

definition GetAudioInCount :: nat where
  "GetAudioInCount = 2"

definition ProcessInitialize ::
  "('c, 'l, 'p) collaborators \<Rightarrow> ('c, 'l) EffectSettings \<Rightarrow> real \<Rightarrow> 'p world
     \<Rightarrow> error + (bool \<times> 'p world)" where
  "ProcessInitialize env settings sampleRate w =
     (let this = instance_of w;
          this1 = CompressorInstance (mCompressor this) (mSlaves this)
                    (mSlaves_capacity this) (mSampleCounter this) (Some sampleRate)
                    (mpOutputs this) (mBlockSize this)
      in case InstanceInit env (mBlockSize this1) settings None this1 GetAudioInCount
                sampleRate of
           Inl e \<Rightarrow> Inl e
         | Inr this2 \<Rightarrow> Inr (True, w\<lparr>instance_of := this2\<rparr>))"

definition ProcessFinalize :: "'p world \<Rightarrow> bool \<times> 'p world" where
  "ProcessFinalize w =
     (let this = instance_of w
      in (True, w\<lparr>instance_of :=
            CompressorInstance (mCompressor this) (mSlaves this) (mSlaves_capacity this)
              (mSampleCounter this) None (mpOutputs this) (mBlockSize this)\<rparr>))"

definition ProcessBlock ::
  "('c, 'l, 'p) collaborators \<Rightarrow> ('c, 'l) EffectSettings \<Rightarrow> real list list
     \<Rightarrow> real list list \<Rightarrow> nat \<Rightarrow> 'p world \<Rightarrow> error + (nat \<times> real list list \<times> 'p world)" where
  "ProcessBlock env settings inBlock outBlock blockLen w =
     (let this = instance_of w
      in case InstanceProcess env settings (mCompressor this) inBlock outBlock blockLen of
           Inl e \<Rightarrow> Inl e
         | Inr (n, outBlock', processor') \<Rightarrow>
             Inr (n, outBlock',
                  w\<lparr>instance_of :=
                      CompressorInstance processor' (mSlaves this) (mSlaves_capacity this)
                        (mSampleCounter this) (mSampleRate this) (mpOutputs this)
                        (mBlockSize this)\<rparr>))"

definition RealtimeInitialize ::
  "('c, 'l) EffectSettings \<Rightarrow> real \<Rightarrow> 'p world \<Rightarrow> bool \<times> 'p world" where
  "RealtimeInitialize settings sampleRate w =
     (let this = instance_of w
      in (True,
          w\<lparr>instance_of :=
               CompressorInstance (mCompressor this) [] (mSlaves_capacity this) 0
                 (Some sampleRate) (mpOutputs this) 512,
            published :=
               published w @ [PublishInitializeProcessingSettings (Some sampleRate)]\<rparr>))"

definition Reinit_slave :: "('c, 'l, 'p) collaborators \<Rightarrow> 'p CompressorInstance
     \<Rightarrow> 'p CompressorInstance" where
  "Reinit_slave env slave =
     CompressorInstance (Reinit env (mCompressor slave)) (mSlaves slave)
       (mSlaves_capacity slave) (mSampleCounter slave) (mSampleRate slave)
       (mpOutputs slave) (mBlockSize slave)"

definition RealtimeResume :: "('c, 'l, 'p) collaborators \<Rightarrow> 'p world \<Rightarrow> bool \<times> 'p world" where
  "RealtimeResume env w =
     (let this = instance_of w
      in (True,
          w\<lparr>instance_of :=
               CompressorInstance (mCompressor this) (map (Reinit_slave env) (mSlaves this))
                 (mSlaves_capacity this) (mSampleCounter this) (mSampleRate this)
                 (mpOutputs this) (mBlockSize this),
            published := published w @ [PublishRealtimeResume]\<rparr>))"

definition RealtimeAddProcessor ::
  "('c, 'l, 'p) collaborators \<Rightarrow> ('c, 'l) EffectSettings \<Rightarrow> EffectOutputsPtr \<Rightarrow> nat \<Rightarrow> real
     \<Rightarrow> 'p world \<Rightarrow> error + (bool \<times> 'p world)" where
  "RealtimeAddProcessor env settings pOutputs numChannels sampleRate w =
     (let this = instance_of w
      in case emplace_back env (mSlaves this) (mSlaves_capacity this) (construct env) of
           (slaves, capacity) \<Rightarrow>
             (case InstanceInit env (mBlockSize this) settings
                     (dynamic_cast_DynamicRangeProcessorOutputs pOutputs) (last slaves)
                     numChannels sampleRate of
                Inl e \<Rightarrow> Inl e
              | Inr slave \<Rightarrow>
                  Inr (True,
                       w\<lparr>instance_of :=
                           CompressorInstance (mCompressor this) (butlast slaves @ [slave])
                             capacity (mSampleCounter this) (mSampleRate this)
                             (mpOutputs this) (mBlockSize this)\<rparr>)))"

definition RealtimeFinalize ::
  "('c, 'l) EffectSettings \<Rightarrow> 'p world \<Rightarrow> bool \<times> 'p world" where
  "RealtimeFinalize settings w =
     (let this = instance_of w
      in (True,
          w\<lparr>instance_of :=
               CompressorInstance (mCompressor this) [] (mSlaves_capacity this)
                 (mSampleCounter this) None (mpOutputs this) (mBlockSize this),
            published := published w @ [PublishInitializeProcessingSettings None]\<rparr>))"

text \<open>The packet \<^verbatim>\<open>RealtimeProcess\<close> builds from a slave whose block has been processed.\<close>

definition newPacket ::
  "('c, 'l, 'p) collaborators \<Rightarrow> 'p \<Rightarrow> nat \<Rightarrow> StatisticsPacket" where
  "newPacket env compressor sampleCounter =
     (let frameStats = GetLastFrameStats env compressor;
          compressorSettings = GetSettings env compressor;
          netGain = outCompressionThreshDb compressorSettings
                      - inCompressionThreshDb compressorSettings;
          targetDb = EvaluateTransferFunction env compressor (maxInputSampleDb frameStats)
                       - maxInputSampleDb frameStats - netGain
      in \<lparr>indexOfFirstSample = sampleCounter,
          targetCompressionDb = targetDb,
          actualCompressionDb = dbAttenuationOfMaxInputSample frameStats\<rparr>)"

definition RealtimeProcess ::
  "('c, 'l, 'p) collaborators \<Rightarrow> nat \<Rightarrow> ('c, 'l) EffectSettings \<Rightarrow> real list list
     \<Rightarrow> real list list \<Rightarrow> nat \<Rightarrow> 'p world \<Rightarrow> error + (nat \<times> real list list \<times> 'p world)" where
  "RealtimeProcess env grp settings inbuf outbuf numSamples w =
     (let this = instance_of w
      in if grp \<ge> length (mSlaves this) then Inr (0, outbuf, w)
         else
           (let slave = mSlaves this ! grp
            in case InstanceProcess env settings (mCompressor slave) inbuf outbuf numSamples of
                 Inl e \<Rightarrow> Inl e
               | Inr (numProcessedSamples, outbuf', compressor) \<Rightarrow>
                   (let sinks =
                          (case mpOutputs slave of
                             None \<Rightarrow> packets w
                           | Some a \<Rightarrow>
                               (packets w)
                                 (a := packets w a
                                         @ [newPacket env compressor (mSampleCounter slave)]));
                        slave' =
                          CompressorInstance compressor (mSlaves slave)
                            (mSlaves_capacity slave)
                            (mSampleCounter slave + numProcessedSamples) (mSampleRate slave)
                            (mpOutputs slave) (mBlockSize slave)
                    in Inr (numProcessedSamples, outbuf',
                            w\<lparr>instance_of :=
                                CompressorInstance (mCompressor this)
                                  ((mSlaves this)[grp := slave']) (mSlaves_capacity this)
                                  (mSampleCounter this) (mSampleRate this) (mpOutputs this)
                                  (mBlockSize this),
                              packets := sinks\<rparr>))))"

definition RealtimePassThrough ::
  "nat \<Rightarrow> ('c, 'l) EffectSettings \<Rightarrow> real list list \<Rightarrow> nat \<Rightarrow> 'p world \<Rightarrow> 'p world" where
  "RealtimePassThrough grp settings inbuf numSamples w =
     (let this = instance_of w
      in if grp < length (mSlaves this) then
           (let slave = mSlaves this ! grp;
                slave' =
                  CompressorInstance (mCompressor slave) (mSlaves slave)
                    (mSlaves_capacity slave) (mSampleCounter slave + numSamples)
                    (mSampleRate slave) (mpOutputs slave) (mBlockSize slave)
            in w\<lparr>instance_of :=
                   CompressorInstance (mCompressor this) ((mSlaves this)[grp := slave'])
                     (mSlaves_capacity this) (mSampleCounter this) (mSampleRate this)
                     (mpOutputs this) (mBlockSize this)\<rparr>)
         else w)"

text \<open>
  Modelled from the spec: the declaration of \<^verbatim>\<open>EffectInstance::SampleCount\<close> is missing;
  the spec calls the result an integer sample count. The conversion of the
  \<^verbatim>\<open>double\<close> to it drops the fractional part, as every C++ conversion of a floating value
  to an integer does.
\<close>

definition to_SampleCount :: "real \<Rightarrow> int" where
  "to_SampleCount x = (if 0 \<le> x then \<lfloor>x\<rfloor> else \<lceil>x\<rceil>)"

text \<open>\<^verbatim>\<open>GetLatency\<close> is a const member function: \<open>this\<close> is the instance it is called on.\<close>

definition GetLatency ::
  "('c, 'l, 'p) collaborators \<Rightarrow> 'p CompressorInstance \<Rightarrow> ('c, 'l) EffectSettings \<Rightarrow> real
     \<Rightarrow> error + int" where
  "GetLatency env this settings sampleRate =
     (case GetDynamicRangeProcessorSettings env settings of
        Inl e \<Rightarrow> Inl e
      | Inr drpSettings \<Rightarrow> Inr (to_SampleCount (lookaheadMs drpSettings * sampleRate / 1000)))"

text \<open>
  \<open>GetLatency\<close> above does its arithmetic on exact real numbers. The source multiplies and
  divides \<^verbatim>\<open>double\<close> values (taking \<open>lookaheadMs\<close> to be one, like \<open>sampleRate\<close>): the
  product is rounded to a \<^verbatim>\<open>double\<close>, the quotient of that by \<open>1000\<close> is rounded again, and
  only then is the fractional part dropped. The definitions below are this arithmetic:
  IEEE 754 binary64, rounding to the nearest value with ties to the even significand,
  subnormal numbers included. A result too large for a \<^verbatim>\<open>double\<close> (an infinity) is \<open>None\<close>.

  \<open>binary64_exponent fuel x\<close> is the binary exponent of \<open>x > 0\<close>, found by halving or
  doubling at most \<open>fuel\<close> times; \<open>1100\<close> steps reach past both ends of the exponent range.
\<close>

fun binary64_exponent :: "nat \<Rightarrow> real \<Rightarrow> int" where
  "binary64_exponent 0 x = 0"
| "binary64_exponent (Suc fuel) x =
     (if 2 \<le> x then binary64_exponent fuel (x / 2) + 1
      else if x < 1 then binary64_exponent fuel (2 * x) - 1
      else 0)"

definition power_of_2 :: "int \<Rightarrow> real" where
  "power_of_2 e = (if 0 \<le> e then 2 ^ nat e else 1 / 2 ^ nat (- e))"

definition round_half_even :: "real \<Rightarrow> int" where
  "round_half_even y =
     (if y - real_of_int \<lfloor>y\<rfloor> < 1 / 2 then \<lfloor>y\<rfloor>
      else if 1 / 2 < y - real_of_int \<lfloor>y\<rfloor> then \<lfloor>y\<rfloor> + 1
      else if even \<lfloor>y\<rfloor> then \<lfloor>y\<rfloor> else \<lfloor>y\<rfloor> + 1)"

definition binary64_round :: "real \<Rightarrow> real option" where
  "binary64_round x =
     (let e = max (binary64_exponent 1100 \<bar>x\<bar>) (- 1022);
          ulp = power_of_2 (e - 52);
          r = real_of_int (round_half_even (x / ulp)) * ulp
      in if \<bar>r\<bar> < 2 ^ 1024 then Some r else None)"

definition double_times :: "real \<Rightarrow> real \<Rightarrow> real option" where
  "double_times x y = binary64_round (x * y)"

definition double_divide :: "real \<Rightarrow> real \<Rightarrow> real option" where
  "double_divide x y = (if y = 0 then None else binary64_round (x / y))"

text \<open>
  Lines 180 to 185 of the source with the arithmetic of \<^verbatim>\<open>double\<close>. Converting a value
  that is not finite to an integer is undefined behaviour.
\<close>

definition GetLatency_double ::
  "('c, 'l, 'p) collaborators \<Rightarrow> 'p CompressorInstance \<Rightarrow> ('c, 'l) EffectSettings \<Rightarrow> real
     \<Rightarrow> error + int" where
  "GetLatency_double env this settings sampleRate =
     (case GetDynamicRangeProcessorSettings env settings of
        Inl e \<Rightarrow> Inl e
      | Inr drpSettings \<Rightarrow>
          (case double_times (lookaheadMs drpSettings) sampleRate of
             None \<Rightarrow> Inl UnrepresentableConversion
           | Some scaled \<Rightarrow>
               (case double_divide scaled 1000 of
                  None \<Rightarrow> Inl UnrepresentableConversion
                | Some samples \<Rightarrow> Inr (to_SampleCount samples))))"

section \<open>Sequences of realtime calls\<close>

text \<open>
  The calls a host makes on an instance between \<^verbatim>\<open>RealtimeInitialize\<close> and
  \<^verbatim>\<open>RealtimeFinalize\<close>, with their arguments, and their effect on the state. A call that
  runs into undefined behaviour ends the run with its error.
\<close>

datatype ('c, 'l) realtime_call =
  CallRealtimeAddProcessor "('c, 'l) EffectSettings" EffectOutputsPtr nat real
| CallRealtimeProcess nat "('c, 'l) EffectSettings" "real list list" "real list list" nat
| CallRealtimePassThrough nat "('c, 'l) EffectSettings" "real list list" nat
| CallRealtimeResume

fun perform ::
  "('c, 'l, 'p) collaborators \<Rightarrow> ('c, 'l) realtime_call \<Rightarrow> 'p world \<Rightarrow> error + 'p world" where
  "perform env (CallRealtimeAddProcessor settings pOutputs numChannels sampleRate) w =
     (case RealtimeAddProcessor env settings pOutputs numChannels sampleRate w of
        Inl e \<Rightarrow> Inl e
      | Inr (ok, w') \<Rightarrow> Inr w')"
| "perform env (CallRealtimeProcess grp settings inbuf outbuf numSamples) w =
     (case RealtimeProcess env grp settings inbuf outbuf numSamples w of
        Inl e \<Rightarrow> Inl e
      | Inr (n, outbuf', w') \<Rightarrow> Inr w')"
| "perform env (CallRealtimePassThrough grp settings inbuf numSamples) w =
     Inr (RealtimePassThrough grp settings inbuf numSamples w)"
| "perform env CallRealtimeResume w = Inr (snd (RealtimeResume env w))"

fun run ::
  "('c, 'l, 'p) collaborators \<Rightarrow> ('c, 'l) realtime_call list \<Rightarrow> 'p world
     \<Rightarrow> error + 'p world" where
  "run env [] w = Inr w"
| "run env (c # cs) w =
     (case perform env c w of Inl e \<Rightarrow> Inl e | Inr w' \<Rightarrow> run env cs w')"

text \<open>
  The spec's side of the counter property: what a call passes as \<open>numSamples\<close> for group
  \<open>g\<close> when the instance has \<open>n\<close> contexts (nothing when \<open>g\<close> is out of range), how many
  contexts there are after the call, and the sum over a sequence of calls.
\<close>

fun numSamplesFor :: "nat \<Rightarrow> nat \<Rightarrow> ('c, 'l) realtime_call \<Rightarrow> nat" where
  "numSamplesFor g n (CallRealtimeProcess grp settings inbuf outbuf numSamples) =
     (if grp = g \<and> g < n then numSamples else 0)"
| "numSamplesFor g n (CallRealtimePassThrough grp settings inbuf numSamples) =
     (if grp = g \<and> g < n then numSamples else 0)"
| "numSamplesFor g n (CallRealtimeAddProcessor settings pOutputs numChannels sampleRate) = 0"
| "numSamplesFor g n CallRealtimeResume = 0"

fun contextsAfter :: "nat \<Rightarrow> ('c, 'l) realtime_call \<Rightarrow> nat" where
  "contextsAfter n (CallRealtimeAddProcessor settings pOutputs numChannels sampleRate) = Suc n"
| "contextsAfter n (CallRealtimeProcess grp settings inbuf outbuf numSamples) = n"
| "contextsAfter n (CallRealtimePassThrough grp settings inbuf numSamples) = n"
| "contextsAfter n CallRealtimeResume = n"

fun sumOfNumSamples :: "nat \<Rightarrow> nat \<Rightarrow> ('c, 'l) realtime_call list \<Rightarrow> nat" where
  "sumOfNumSamples g n [] = 0"
| "sumOfNumSamples g n (c # cs) = numSamplesFor g n c + sumOfNumSamples g (contextsAfter n c) cs"

fun adds_context :: "('c, 'l) realtime_call \<Rightarrow> bool" where
  "adds_context (CallRealtimeAddProcessor settings pOutputs numChannels sampleRate) = True"
| "adds_context (CallRealtimeProcess grp settings inbuf outbuf numSamples) = False"
| "adds_context (CallRealtimePassThrough grp settings inbuf numSamples) = False"
| "adds_context CallRealtimeResume = False"

text \<open>The sample counter of the context of group \<open>g\<close>; 0 while there is no such context.\<close>

definition sampleCounterAt :: "'p world \<Rightarrow> nat \<Rightarrow> nat" where
  "sampleCounterAt w g =
     (if g < length (mSlaves (instance_of w))
      then mSampleCounter (mSlaves (instance_of w) ! g) else 0)"

section \<open>A small processor for concrete runs\<close>

text \<open>
  An instance of the collaborators on which the functions above compute: the processor
  is the pair of its applied settings and its last frame statistics, \<open>Process\<close> copies
  the first \<open>blockLen\<close> samples of every channel and reports a peak of \<open>-6\<close> dB
  attenuated by \<open>2\<close> dB, the transfer function is a hard knee, and a full vector doubles
  its capacity.
\<close>

definition exampleSettings :: DynamicRangeProcessorSettings where
  "exampleSettings =
     \<lparr>inCompressionThreshDb = -10, outCompressionThreshDb = -4, kneeWidthDb = 0,
      compressionRatio = 2, lookaheadMs = 1, attackMs = 30, releaseMs = 150\<rparr>"

definition exampleCollaborators ::
  "(DynamicRangeProcessorSettings, DynamicRangeProcessorSettings,
    DynamicRangeProcessorSettings \<times> FrameStats) collaborators" where
  "exampleCollaborators =
     \<lparr>fromCompressorSettings = (\<lambda>c. c),
      fromLimiterSettings = (\<lambda>l. l),
      newCompressorProcessor =
        (exampleSettings, \<lparr>maxInputSampleDb = 0, dbAttenuationOfMaxInputSample = 0\<rparr>),
      ApplySettingsIfNeeded = (\<lambda>s p. (s, snd p)),
      Init = (\<lambda>sampleRate numChannels blockSize p. p),
      Reinit = (\<lambda>p. p),
      Process = (\<lambda>inBlock outBlock blockLen p.
        ((fst p, \<lparr>maxInputSampleDb = -6, dbAttenuationOfMaxInputSample = -2\<rparr>),
         map (take blockLen) inBlock)),
      GetLastFrameStats = snd,
      GetSettings = fst,
      EvaluateTransferFunction = (\<lambda>p x.
        if inCompressionThreshDb (fst p) < x
        then outCompressionThreshDb (fst p)
               + (x - inCompressionThreshDb (fst p)) / compressionRatio (fst p)
        else x + (outCompressionThreshDb (fst p) - inCompressionThreshDb (fst p))),
      defaultBlockSize = 0,
      vectorGrowth = (\<lambda>capacity. 2 * capacity)\<rparr>"

definition freshWorld :: "('c, 'l, 'p) collaborators \<Rightarrow> 'p world" where
  "freshWorld env = \<lparr>instance_of = construct env, packets = (\<lambda>a. []), published = []\<rparr>"

text \<open>
  The state after \<^verbatim>\<open>RealtimeInitialize\<close> at 44100 Hz and one \<^verbatim>\<open>RealtimeAddProcessor\<close> with
  limiter settings, two channels and the sink at address 7.
\<close>

definition exampleRealtimeWorld ::
  "(DynamicRangeProcessorSettings \<times> FrameStats) world" where
  "exampleRealtimeWorld =
     (case RealtimeAddProcessor exampleCollaborators (HoldsLimiterSettings exampleSettings)
             (DynamicRangeProcessorOutputsAt 7) 2 44100
             (snd (RealtimeInitialize
                (HoldsLimiterSettings exampleSettings
                   :: (DynamicRangeProcessorSettings, DynamicRangeProcessorSettings)
                        EffectSettings)
                44100 (freshWorld exampleCollaborators))) of
        Inl e \<Rightarrow> freshWorld exampleCollaborators
      | Inr (ok, w) \<Rightarrow> w)"

text \<open>
  A run on a new instance: one context is added and processes 512 samples, then a second
  context is added.
\<close>

definition reallocatingCalls ::
  "(DynamicRangeProcessorSettings, DynamicRangeProcessorSettings) realtime_call list" where
  "reallocatingCalls =
     [CallRealtimeAddProcessor (HoldsLimiterSettings exampleSettings)
        (DynamicRangeProcessorOutputsAt 7) 2 44100,
      CallRealtimeProcess 0 (HoldsLimiterSettings exampleSettings)
        [[1, 1], [1, 1]] [[0, 0], [0, 0]] 512,
      CallRealtimeAddProcessor (HoldsCompressorSettings exampleSettings) NullOutputs 2 44100]"

section \<open>Settings retrieval\<close>

lemma GetDynamicRangeProcessorSettings_Inr:
  "settings \<noteq> HoldsNeither \<Longrightarrow>
   \<exists>d. GetDynamicRangeProcessorSettings env settings = Inr d"
  by (cases settings) (simp_all add: GetDynamicRangeProcessorSettings_def)

text \<open>
  C9. A snapshot that holds compressor settings or limiter settings yields the
  dynamic-range-processor settings made from the held value, and the dereference of a
  failed cast is reached exactly when the snapshot holds neither. In that case the
  failure is not caught anywhere: every member function that reads the settings ends in
  it (\<^verbatim>\<open>RealtimeProcess\<close> once the group is in range).
\<close>

theorem GetDynamicRangeProcessorSettings_contract:
  "GetDynamicRangeProcessorSettings env (HoldsCompressorSettings c)
     = Inr (fromCompressorSettings env c)
   \<and> GetDynamicRangeProcessorSettings env (HoldsLimiterSettings l)
     = Inr (fromLimiterSettings env l)
   \<and> ((\<exists>e. GetDynamicRangeProcessorSettings env settings = Inl e) = (settings = HoldsNeither))
   \<and> ProcessInitialize env HoldsNeither sampleRate w = Inl NullPointerDereference
   \<and> ProcessBlock env HoldsNeither inBlock outBlock blockLen w = Inl NullPointerDereference
   \<and> RealtimeAddProcessor env HoldsNeither pOutputs numChannels sampleRate w
     = Inl NullPointerDereference
   \<and> (grp < length (mSlaves (instance_of w)) \<longrightarrow>
        RealtimeProcess env grp HoldsNeither inBlock outBlock blockLen w
          = Inl NullPointerDereference)
   \<and> GetLatency env this HoldsNeither sampleRate = Inl NullPointerDereference"
proof -
  have "(\<exists>e. GetDynamicRangeProcessorSettings env settings = Inl e) = (settings = HoldsNeither)"
    by (cases settings) (simp_all add: GetDynamicRangeProcessorSettings_def)
  then show ?thesis
    by (simp add: GetDynamicRangeProcessorSettings_def ProcessInitialize_def ProcessBlock_def
        RealtimeAddProcessor_def RealtimeProcess_def GetLatency_def InstanceInit_def
        InstanceProcess_def Let_def case_prod_beta)
qed

theorem GetDynamicRangeProcessorSettings_contract_witness:
  "GetDynamicRangeProcessorSettings exampleCollaborators
     (HoldsLimiterSettings (exampleSettings\<lparr>lookaheadMs := 5\<rparr>))
     = Inr (exampleSettings\<lparr>lookaheadMs := 5\<rparr>)
   \<and> RealtimeProcess exampleCollaborators 0 HoldsNeither [[1], [1]] [[0], [0]] 1
       exampleRealtimeWorld
     = Inl NullPointerDereference
   \<and> GetLatency exampleCollaborators (construct exampleCollaborators) HoldsNeither 44100
     = Inl NullPointerDereference"
proof -
  have "0 < length (mSlaves (instance_of exampleRealtimeWorld))"
    by (simp add: exampleRealtimeWorld_def RealtimeAddProcessor_def RealtimeInitialize_def
        emplace_back_def InstanceInit_def GetDynamicRangeProcessorSettings_def freshWorld_def
        construct_def Let_def)
  with GetDynamicRangeProcessorSettings_contract
    [of exampleCollaborators exampleSettings "exampleSettings\<lparr>lookaheadMs := 5\<rparr>" HoldsNeither
      44100 exampleRealtimeWorld "[[1], [1]]" "[[0], [0]]" 1 NullOutputs 2 0
      "construct exampleCollaborators"]
  show ?thesis
    by (simp add: exampleCollaborators_def)
qed

section \<open>Return values\<close>

text \<open>
  C8. With a settings snapshot that holds compressor or limiter settings,
  \<^verbatim>\<open>ProcessBlock\<close> returns exactly \<open>blockLen\<close>, and \<^verbatim>\<open>RealtimeProcess\<close> on a group in range
  returns exactly \<open>numSamples\<close>.
\<close>

theorem ProcessBlock_returns_blockLen:
  "settings \<noteq> HoldsNeither \<Longrightarrow>
   map_sum id fst (ProcessBlock env settings inBlock outBlock blockLen w) = Inr blockLen
   \<and> (grp < length (mSlaves (instance_of w)) \<longrightarrow>
        map_sum id fst (RealtimeProcess env grp settings inbuf outbuf numSamples w)
          = Inr numSamples)"
  by (cases settings)
     (simp_all add: ProcessBlock_def RealtimeProcess_def InstanceProcess_def
        GetDynamicRangeProcessorSettings_def Let_def split: prod.splits)

theorem ProcessBlock_returns_blockLen_witness:
  "map_sum id fst
     (ProcessBlock exampleCollaborators (HoldsCompressorSettings exampleSettings)
        [[1, 2, 3], [4, 5, 6]] [[0, 0, 0], [0, 0, 0]] 3 exampleRealtimeWorld)
   = Inr 3
   \<and> map_sum id fst
       (RealtimeProcess exampleCollaborators 0 (HoldsCompressorSettings exampleSettings)
          [[1, 2], [4, 5]] [[0, 0], [0, 0]] 2 exampleRealtimeWorld)
     = Inr 2"
proof -
  have "0 < length (mSlaves (instance_of exampleRealtimeWorld))"
    by (simp add: exampleRealtimeWorld_def RealtimeAddProcessor_def RealtimeInitialize_def
        emplace_back_def InstanceInit_def GetDynamicRangeProcessorSettings_def freshWorld_def
        construct_def Let_def)
  with ProcessBlock_returns_blockLen
    [of "HoldsCompressorSettings exampleSettings" exampleCollaborators
      "[[1, 2, 3], [4, 5, 6]]" "[[0, 0, 0], [0, 0, 0]]" 3 exampleRealtimeWorld
      0 "[[1, 2], [4, 5]]" "[[0, 0], [0, 0]]" 2]
  show ?thesis
    by simp
qed

section \<open>Out-of-range groups\<close>

text \<open>
  C3. \<^verbatim>\<open>RealtimeProcess\<close> with a group index that is not below the number of contexts
  returns 0 and changes nothing: the instance with all its contexts (counters, sinks'
  addresses, processors), every packet vector, the published notifications and the
  output buffer are as before. The settings are not even read.
\<close>

theorem RealtimeProcess_out_of_range:
  "length (mSlaves (instance_of w)) \<le> grp \<Longrightarrow>
   RealtimeProcess env grp settings inbuf outbuf numSamples w = Inr (0, outbuf, w)"
  by (simp add: RealtimeProcess_def Let_def)

theorem RealtimeProcess_out_of_range_witness:
  "RealtimeProcess exampleCollaborators 0 HoldsNeither [[1, 2]] [[0, 0]] 2
     (freshWorld exampleCollaborators)
   = Inr (0, [[0, 0]], freshWorld exampleCollaborators)"
  using RealtimeProcess_out_of_range
    [of "freshWorld exampleCollaborators" 0 exampleCollaborators HoldsNeither
      "[[1, 2]]" "[[0, 0]]" 2]
  by (simp add: freshWorld_def construct_def)

section \<open>Realtime processing of a group in range\<close>

lemma exampleRealtimeWorld_value:
  "exampleRealtimeWorld =
     \<lparr>instance_of =
        CompressorInstance
          (exampleSettings, \<lparr>maxInputSampleDb = 0, dbAttenuationOfMaxInputSample = 0\<rparr>)
          [CompressorInstance
             (exampleSettings, \<lparr>maxInputSampleDb = 0, dbAttenuationOfMaxInputSample = 0\<rparr>)
             [] 0 0 None (Some 7) 0]
          1 0 (Some 44100) None 512,
      packets = (\<lambda>a. []),
      published = [PublishInitializeProcessingSettings (Some 44100)]\<rparr>"
  by (simp add: exampleRealtimeWorld_def RealtimeAddProcessor_def RealtimeInitialize_def
      emplace_back_def InstanceInit_def GetDynamicRangeProcessorSettings_def freshWorld_def
      construct_def exampleCollaborators_def Let_def)

lemma RealtimeProcess_in_range:
  assumes "grp < length (mSlaves (instance_of w))"
    and "GetDynamicRangeProcessorSettings env settings = Inr d"
  shows "RealtimeProcess env grp settings inbuf outbuf numSamples w =
     (let this = instance_of w;
          slave = mSlaves this ! grp;
          done = Process env inbuf outbuf numSamples
                   (ApplySettingsIfNeeded env d (mCompressor slave))
      in Inr (numSamples, snd done,
              w\<lparr>instance_of :=
                  CompressorInstance (mCompressor this)
                    ((mSlaves this)
                       [grp := CompressorInstance (fst done) (mSlaves slave)
                                 (mSlaves_capacity slave)
                                 (mSampleCounter slave + numSamples) (mSampleRate slave)
                                 (mpOutputs slave) (mBlockSize slave)])
                    (mSlaves_capacity this) (mSampleCounter this) (mSampleRate this)
                    (mpOutputs this) (mBlockSize this),
                packets :=
                  (case mpOutputs slave of
                     None \<Rightarrow> packets w
                   | Some a \<Rightarrow>
                       (packets w)
                         (a := packets w a
                                 @ [newPacket env (fst done) (mSampleCounter slave)]))\<rparr>))"
  using assms
  by (simp add: RealtimeProcess_def InstanceProcess_def Let_def case_prod_beta)

text \<open>
  C1. For a \<^verbatim>\<open>RealtimeProcess\<close> call on a group in range whose context has a sink at
  address \<open>a\<close>, the packet appended to that sink has as \<open>targetCompressionDb\<close> the transfer
  function at the peak input level, minus the peak input level, minus the difference of
  the output and input thresholds. The peak comes from \<open>GetLastFrameStats\<close> and the
  thresholds from \<open>GetSettings\<close> of the context's processor as it is after the settings of
  this call were applied and the block was processed.
\<close>

theorem RealtimeProcess_targetCompressionDb:
  assumes "grp < length (mSlaves (instance_of w))"
    and "mpOutputs (mSlaves (instance_of w) ! grp) = Some a"
    and "GetDynamicRangeProcessorSettings env settings = Inr d"
  shows "\<exists>outbuf' w'.
           RealtimeProcess env grp settings inbuf outbuf numSamples w
             = Inr (numSamples, outbuf', w')
           \<and> packets w' a = packets w a @ [last (packets w' a)]
           \<and> mCompressor (mSlaves (instance_of w') ! grp)
               = fst (Process env inbuf outbuf numSamples
                       (ApplySettingsIfNeeded env d
                          (mCompressor (mSlaves (instance_of w) ! grp))))
           \<and> targetCompressionDb (last (packets w' a))
               = EvaluateTransferFunction env (mCompressor (mSlaves (instance_of w') ! grp))
                   (maxInputSampleDb
                      (GetLastFrameStats env (mCompressor (mSlaves (instance_of w') ! grp))))
                 - maxInputSampleDb
                     (GetLastFrameStats env (mCompressor (mSlaves (instance_of w') ! grp)))
                 - (outCompressionThreshDb
                      (GetSettings env (mCompressor (mSlaves (instance_of w') ! grp)))
                    - inCompressionThreshDb
                        (GetSettings env (mCompressor (mSlaves (instance_of w') ! grp))))"
  using RealtimeProcess_in_range [OF assms(1,3), of inbuf outbuf numSamples] assms(1,2)
  by (simp add: Let_def newPacket_def)

theorem RealtimeProcess_targetCompressionDb_witness:
  "map_sum id (\<lambda>r. map targetCompressionDb (packets (snd (snd r)) 7))
     (RealtimeProcess exampleCollaborators 0 (HoldsLimiterSettings exampleSettings)
        [[0, 0], [0, 0]] [[1, 1], [1, 1]] 512 exampleRealtimeWorld) = Inr [- 2]"
proof -
  have 1: "0 < length (mSlaves (instance_of exampleRealtimeWorld))"
    by (simp add: exampleRealtimeWorld_value)
  have 2: "mpOutputs (mSlaves (instance_of exampleRealtimeWorld) ! 0) = Some 7"
    by (simp add: exampleRealtimeWorld_value)
  have 3: "GetDynamicRangeProcessorSettings exampleCollaborators
      (HoldsLimiterSettings exampleSettings) = Inr exampleSettings"
    by (simp add: GetDynamicRangeProcessorSettings_def exampleCollaborators_def)
  from RealtimeProcess_targetCompressionDb [OF 1 2 3, of "[[0, 0], [0, 0]]" "[[1, 1], [1, 1]]" 512]
  show ?thesis
    by (simp add: exampleRealtimeWorld_value RealtimeProcess_def InstanceProcess_def
      GetDynamicRangeProcessorSettings_def newPacket_def exampleCollaborators_def
      exampleSettings_def Let_def)
qed



section \<open>Sample counters\<close>

text \<open>
  Calls that add no context keep the counters exact: from any state, after any sequence of
  \<^verbatim>\<open>RealtimeProcess\<close>, \<^verbatim>\<open>RealtimePassThrough\<close> and \<^verbatim>\<open>RealtimeResume\<close> calls the counter
  of a group has grown by the sum of the \<open>numSamples\<close> passed for it while in range.
  \<^verbatim>\<open>RealtimeAddProcessor\<close> on a full vector is different: every context that exists is
  re-created by the move constructor, with a sample counter of 0 and without its sink.
\<close>

lemma perform_contexts:
  "perform env c w = Inr w' \<Longrightarrow>
   length (mSlaves (instance_of w')) = contextsAfter (length (mSlaves (instance_of w))) c"
  by (cases c)
     (auto simp: RealtimeAddProcessor_def emplace_back_def RealtimeProcess_def
        RealtimePassThrough_def RealtimeResume_def Let_def
        split: sum.splits prod.splits if_splits)

lemma perform_counter:
  assumes "perform env c w = Inr w'" and "\<not> adds_context c"
  shows "sampleCounterAt w' g
     = sampleCounterAt w g + numSamplesFor g (length (mSlaves (instance_of w))) c"
proof (cases c)
  case (CallRealtimeAddProcessor settings pOutputs numChannels sampleRate)
  with assms(2) show ?thesis by simp
next
  case (CallRealtimeProcess grp settings inbuf outbuf numSamples)
  with assms(1) show ?thesis
    by (auto simp: RealtimeProcess_def InstanceProcess_def sampleCounterAt_def Let_def
        nth_list_update split: sum.splits prod.splits if_splits)
next
  case (CallRealtimePassThrough grp settings inbuf numSamples)
  with assms(1) show ?thesis
    by (auto simp: RealtimePassThrough_def sampleCounterAt_def Let_def nth_list_update
        split: if_splits)
next
  case CallRealtimeResume
  with assms(1) show ?thesis
    by (auto simp: RealtimeResume_def Reinit_slave_def sampleCounterAt_def Let_def)
qed

lemma run_counter:
  "run env cs w = Inr w' \<Longrightarrow> list_all (\<lambda>c. \<not> adds_context c) cs \<Longrightarrow>
   sampleCounterAt w' g
     = sampleCounterAt w g + sumOfNumSamples g (length (mSlaves (instance_of w))) cs"
proof (induction cs arbitrary: w)
  case Nil
  then show ?case by simp
next
  case (Cons c cs)
  from Cons.prems obtain w1 where c: "perform env c w = Inr w1" and cs: "run env cs w1 = Inr w'"
    by (auto split: sum.splits)
  from Cons.prems have na: "\<not> adds_context c" and rest: "list_all (\<lambda>c. \<not> adds_context c) cs"
    by simp_all
  from Cons.IH [OF cs rest] perform_counter [OF c na, of g] perform_contexts [OF c]
  show ?case by simp
qed

lemma RealtimeAddProcessor_recreates_contexts:
  assumes "mSlaves_capacity (instance_of w) \<le> length (mSlaves (instance_of w))"
    and "settings \<noteq> HoldsNeither"
    and "g < length (mSlaves (instance_of w))"
  shows "\<exists>w'. RealtimeAddProcessor env settings pOutputs numChannels sampleRate w = Inr (True, w')
           \<and> mSlaves (instance_of w') ! g
               = move_construct env (mSlaves (instance_of w) ! g)
           \<and> mSampleCounter (mSlaves (instance_of w') ! g) = 0
           \<and> mpOutputs (mSlaves (instance_of w') ! g) = None"
proof -
  from assms(2) obtain d where d: "GetDynamicRangeProcessorSettings env settings = Inr d"
    using GetDynamicRangeProcessorSettings_Inr by blast
  show ?thesis
    using assms(1,3) d
    by (simp add: RealtimeAddProcessor_def emplace_back_def InstanceInit_def Let_def
        nth_append move_construct_def)
qed

text \<open>
  C2 does not hold of the code. On a new instance, after \<^verbatim>\<open>RealtimeInitialize\<close>, one
  \<^verbatim>\<open>RealtimeAddProcessor\<close> and a \<^verbatim>\<open>RealtimeProcess\<close> of 512 samples on group 0, the counter
  of group 0 is 512. A second \<^verbatim>\<open>RealtimeAddProcessor\<close> finds the vector full (one element,
  capacity one) and re-creates context 0: its counter is 0 afterwards, while the
  \<open>numSamples\<close> passed for group 0 since \<^verbatim>\<open>RealtimeInitialize\<close> sum to 512.
\<close>

theorem sample_counter_lost_in_RealtimeAddProcessor:
  "map_sum id (\<lambda>w. map mSampleCounter (mSlaves (instance_of w)))
     (run exampleCollaborators reallocatingCalls
        (snd (RealtimeInitialize HoldsNeither 44100 (freshWorld exampleCollaborators))))
     = Inr [0, 0]
   \<and> map_sum id (\<lambda>w. map mSampleCounter (mSlaves (instance_of w)))
       (run exampleCollaborators (butlast reallocatingCalls)
          (snd (RealtimeInitialize HoldsNeither 44100 (freshWorld exampleCollaborators))))
     = Inr [512]
   \<and> sumOfNumSamples 0 0 reallocatingCalls = 512"
  by (simp add: reallocatingCalls_def RealtimeInitialize_def RealtimeAddProcessor_def
      emplace_back_def move_construct_def RealtimeProcess_def
      InstanceInit_def InstanceProcess_def GetDynamicRangeProcessorSettings_def
      freshWorld_def construct_def exampleCollaborators_def Let_def)

section \<open>Latency\<close>



lemma to_SampleCount_truncates:
  "\<bar>real_of_int (to_SampleCount x)\<bar> \<le> \<bar>x\<bar>
   \<and> \<bar>x\<bar> < \<bar>real_of_int (to_SampleCount x)\<bar> + 1
   \<and> 0 \<le> real_of_int (to_SampleCount x) * x"
proof (cases "0 \<le> x")
  case True
  then have "0 \<le> \<lfloor>x\<rfloor>" by simp
  then show ?thesis using True by (simp add: to_SampleCount_def)
next
  case False
  then have c: "\<lceil>x\<rceil> \<le> 0" by simp
  have "x \<le> real_of_int \<lceil>x\<rceil>" "real_of_int \<lceil>x\<rceil> < x + 1" by linarith+
  moreover have "0 \<le> real_of_int \<lceil>x\<rceil> * x"
    using c False by (simp add: mult_nonpos_nonpos)
  ultimately show ?thesis using False c by (simp add: to_SampleCount_def)
qed

subsection \<open>The arithmetic of double\<close>

lemma binary64_exponent_numeral:
  "binary64_exponent (numeral k) x =
     (if 2 \<le> x then binary64_exponent (pred_numeral k) (x / 2) + 1
      else if x < 1 then binary64_exponent (pred_numeral k) (2 * x) - 1
      else 0)"
  by (simp add: numeral_eq_Suc)

lemma power_of_2_pos: "0 < power_of_2 e"
  by (simp add: power_of_2_def)

lemma power_of_2_Suc: "power_of_2 (e + 1) = 2 * power_of_2 e"
proof (cases "0 \<le> e")
  case True
  then show ?thesis by (simp add: power_of_2_def nat_add_distrib)
next
  case False
  then have "nat (- e) = Suc (nat (- e - 1))" by simp
  then have "(2::real) ^ nat (- e) = 2 * 2 ^ nat (- e - 1)" by simp
  with False show ?thesis
    by (cases "e = - 1") (simp_all add: power_of_2_def)
qed

lemma power_of_2_pred: "power_of_2 (e - 1) = power_of_2 e / 2"
  using power_of_2_Suc [of "e - 1"] by simp

lemma binary64_exponent_bounds:
  "1 / 2 ^ n \<le> x \<Longrightarrow> x < 2 ^ Suc n \<Longrightarrow>
   power_of_2 (binary64_exponent n x) \<le> x \<and> x < 2 * power_of_2 (binary64_exponent n x)"
proof (induction n arbitrary: x)
  case 0
  then show ?case by (simp add: power_of_2_def)
next
  case (Suc n)
  show ?case
  proof (cases "2 \<le> x")
    case True
    have "1 / 2 ^ n \<le> x / 2"
    proof -
      have "1 / 2 ^ n \<le> (1::real)" by (simp add: divide_le_eq_1)
      also have "1 \<le> x / 2" using True by simp
      finally show ?thesis .
    qed
    moreover have "x / 2 < 2 ^ Suc n" using Suc.prems(2) by simp
    ultimately have "power_of_2 (binary64_exponent n (x / 2)) \<le> x / 2
        \<and> x / 2 < 2 * power_of_2 (binary64_exponent n (x / 2))"
      by (rule Suc.IH)
    with True show ?thesis by (simp add: power_of_2_Suc)
  next
    case False
    show ?thesis
    proof (cases "x < 1")
      case True
      have "1 / 2 ^ n \<le> 2 * x" using Suc.prems(1) by (simp add: field_simps)
      moreover have "2 * x < 2 ^ Suc n"
      proof -
        have "2 * x < 2" using True by simp
        also have "(2::real) \<le> 2 ^ Suc n" using one_le_power [of "2::real" n] by simp
        finally show ?thesis .
      qed
      ultimately have "power_of_2 (binary64_exponent n (2 * x)) \<le> 2 * x
          \<and> 2 * x < 2 * power_of_2 (binary64_exponent n (2 * x))"
        by (rule Suc.IH)
      with True False show ?thesis by (simp add: power_of_2_pred)
    next
      case ge: False
      with False show ?thesis by (simp add: power_of_2_def)
    qed
  qed
qed

lemma round_half_even_error: "\<bar>real_of_int (round_half_even y) - y\<bar> \<le> 1 / 2"
  unfolding round_half_even_def by (auto simp: abs_if) linarith+

lemma power_of_2_diff: "power_of_2 (e - int n) = power_of_2 e / 2 ^ n"
proof (induction n)
  case 0
  then show ?case by simp
next
  case (Suc n)
  have "power_of_2 (e - int (Suc n)) = power_of_2 (e - int n - 1)"
    by (simp add: algebra_simps)
  also have "\<dots> = power_of_2 (e - int n) / 2" by (rule power_of_2_pred)
  finally show ?case by (simp add: Suc.IH)
qed

lemma power_of_2_mono: "a \<le> b \<Longrightarrow> power_of_2 a \<le> power_of_2 b"
proof -
  assume "a \<le> b"
  then have "a = b - int (nat (b - a))" by simp
  then have "power_of_2 a = power_of_2 b / 2 ^ nat (b - a)"
    using power_of_2_diff [of b "nat (b - a)"] by simp
  moreover have "power_of_2 b / 2 ^ nat (b - a) \<le> power_of_2 b / 1"
    using power_of_2_pos [of b] by (intro divide_left_mono) simp_all
  ultimately show ?thesis by simp
qed

lemma power_of_2_less_imp: "power_of_2 a < power_of_2 b \<Longrightarrow> a < b"
  using power_of_2_mono [of b a] by (cases "a < b") simp_all

lemma binary64_round_error:
  assumes lo: "1 / 2 ^ 1022 \<le> \<bar>x\<bar>" and hi: "\<bar>x\<bar> < 2 ^ 1024"
    and r: "binary64_round x = Some r"
  shows "\<bar>r - x\<bar> \<le> \<bar>x\<bar> / 2 ^ 53"
proof -
  define e where "e = binary64_exponent 1100 \<bar>x\<bar>"
  have "(1::real) / 2 ^ 1100 \<le> 1 / 2 ^ 1022"
    by (intro divide_left_mono power_increasing) simp_all
  then have lo': "1 / 2 ^ 1100 \<le> \<bar>x\<bar>" using lo by (rule order_trans)
  have "(2::real) ^ 1024 \<le> 2 ^ Suc 1100"
    by (intro power_increasing) simp_all
  with hi have hi': "\<bar>x\<bar> < 2 ^ Suc 1100" by (rule less_le_trans)
  from binary64_exponent_bounds [OF lo' hi']
  have pe: "power_of_2 e \<le> \<bar>x\<bar>" and pe': "\<bar>x\<bar> < 2 * power_of_2 e"
    by (simp_all only: e_def)
  have "power_of_2 (- 1022) = 1 / 2 ^ 1022" by (simp add: power_of_2_def)
  then have "power_of_2 (- 1022) \<le> \<bar>x\<bar>" using lo by (simp only:)
  also note pe'
  also have "2 * power_of_2 e = power_of_2 (e + 1)" by (simp only: power_of_2_Suc)
  finally have "- 1022 < e + 1" by (rule power_of_2_less_imp)
  then have e_ge: "max e (- 1022) = e" by simp
  define ulp where "ulp = power_of_2 (e - 52)"
  have ulp_pos: "0 < ulp" by (simp only: ulp_def power_of_2_pos)
  have ulp_eq: "ulp = power_of_2 e / 2 ^ 52"
    using power_of_2_diff [of e 52] by (simp add: ulp_def)
  have "binary64_round x
      = (if \<bar>real_of_int (round_half_even (x / ulp)) * ulp\<bar> < 2 ^ 1024
         then Some (real_of_int (round_half_even (x / ulp)) * ulp) else None)"
    unfolding binary64_round_def Let_def e_def [symmetric] e_ge ulp_def [symmetric] ..
  with r have r_eq: "r = real_of_int (round_half_even (x / ulp)) * ulp"
    by (auto split: if_splits)
  have "r - x = (real_of_int (round_half_even (x / ulp)) - x / ulp) * ulp"
    using ulp_pos by (simp add: r_eq field_simps)
  then have "\<bar>r - x\<bar> = \<bar>real_of_int (round_half_even (x / ulp)) - x / ulp\<bar> * ulp"
    using ulp_pos by (simp add: abs_mult)
  also have "\<dots> \<le> 1 / 2 * ulp"
    using round_half_even_error [of "x / ulp"] ulp_pos by (intro mult_right_mono) simp_all
  also have "\<dots> = power_of_2 e / 2 ^ 53" by (simp add: ulp_eq)
  also have "\<dots> \<le> \<bar>x\<bar> / 2 ^ 53" using pe by (simp add: divide_right_mono)
  finally show ?thesis .
qed

text \<open>
  C5. For a snapshot that holds settings \<open>d\<close>, \<^verbatim>\<open>GetLatency\<close> as the source computes it
  returns \<open>lookaheadMs d * sampleRate / 1000\<close>, the product and the quotient each rounded
  to a \<^verbatim>\<open>double\<close>, with the fractional part dropped: the integer \<open>n\<close> of the same sign as
  the rounded quotient \<open>q\<close> with \<open>\<bar>n\<bar> \<le> \<bar>q\<bar> < \<bar>n\<bar> + 1\<close>. In the range of normal numbers
  each rounding changes its argument by at most one part in \<open>2 ^ 53\<close>. The instance \<open>this\<close>
  it is called on is arbitrary: nothing stored in the instance or its processors enters
  the result.
\<close>

theorem GetLatency_double_is_truncated_quotient:
  assumes "GetDynamicRangeProcessorSettings env settings = Inr d"
    and "double_times (lookaheadMs d) sampleRate = Some p"
    and "double_divide p 1000 = Some q"
  shows "\<exists>n. GetLatency_double env this settings sampleRate = Inr n
           \<and> n = to_SampleCount q
           \<and> \<bar>real_of_int n\<bar> \<le> \<bar>q\<bar>
           \<and> \<bar>q\<bar> < \<bar>real_of_int n\<bar> + 1
           \<and> 0 \<le> real_of_int n * q
           \<and> (1 / 2 ^ 1022 \<le> \<bar>lookaheadMs d * sampleRate\<bar>
                \<and> \<bar>lookaheadMs d * sampleRate\<bar> < 2 ^ 1024
              \<longrightarrow> \<bar>p - lookaheadMs d * sampleRate\<bar> \<le> \<bar>lookaheadMs d * sampleRate\<bar> / 2 ^ 53)
           \<and> (1 / 2 ^ 1022 \<le> \<bar>p / 1000\<bar> \<and> \<bar>p / 1000\<bar> < 2 ^ 1024
              \<longrightarrow> \<bar>q - p / 1000\<bar> \<le> \<bar>p / 1000\<bar> / 2 ^ 53)"
proof -
  have call: "GetLatency_double env this settings sampleRate = Inr (to_SampleCount q)"
    using assms by (simp add: GetLatency_double_def)
  have p: "binary64_round (lookaheadMs d * sampleRate) = Some p"
    using assms(2) by (simp only: double_times_def)
  have q: "binary64_round (p / 1000) = Some q"
    using assms(3) by (simp add: double_divide_def)
  have ep: "\<bar>p - lookaheadMs d * sampleRate\<bar> \<le> \<bar>lookaheadMs d * sampleRate\<bar> / 2 ^ 53"
    if "1 / 2 ^ 1022 \<le> \<bar>lookaheadMs d * sampleRate\<bar>"
      and "\<bar>lookaheadMs d * sampleRate\<bar> < 2 ^ 1024"
    using that p by (rule binary64_round_error)
  have eq: "\<bar>q - p / 1000\<bar> \<le> \<bar>p / 1000\<bar> / 2 ^ 53"
    if "1 / 2 ^ 1022 \<le> \<bar>p / 1000\<bar>" and "\<bar>p / 1000\<bar> < 2 ^ 1024"
    using that q by (rule binary64_round_error)
  from call to_SampleCount_truncates [of q] ep eq show ?thesis
    by blast
qed

theorem GetLatency_double_is_truncated_quotient_witness:
  "GetLatency_double exampleCollaborators (construct exampleCollaborators)
     (HoldsLimiterSettings (exampleSettings\<lparr>lookaheadMs := 1429714167419205 / 2 ^ 53\<rparr>))
     44100
   = Inr 7"
proof -
  have 1: "GetDynamicRangeProcessorSettings exampleCollaborators
          (HoldsLimiterSettings (exampleSettings\<lparr>lookaheadMs := 1429714167419205 / 2 ^ 53\<rparr>))
        = Inr (exampleSettings\<lparr>lookaheadMs := 1429714167419205 / 2 ^ 53\<rparr>)"
    by (simp add: GetDynamicRangeProcessorSettings_def exampleCollaborators_def)
  have 2: "double_times
          (lookaheadMs (exampleSettings\<lparr>lookaheadMs := 1429714167419205 / 2 ^ 53\<rparr>)) 44100
        = Some 7000"
    by (simp add: double_times_def binary64_round_def binary64_exponent_numeral
        power_of_2_def round_half_even_def Let_def)
  have 3: "double_divide 7000 1000 = Some 7"
    by (simp add: double_divide_def binary64_round_def binary64_exponent_numeral
        power_of_2_def round_half_even_def Let_def)
  from GetLatency_double_is_truncated_quotient
    [OF 1 2 3, of "construct exampleCollaborators"]
  show ?thesis
    by (auto simp: to_SampleCount_def)
qed

text \<open>
  The same latency in exact arithmetic is 6: the exact product is just below 7000 and
  rounds to 7000. At 48000 Hz, lookaheads of 1 ms and 65/64 ms give 48 samples in the
  arithmetic of \<^verbatim>\<open>double\<close> as they do in exact arithmetic.
\<close>

lemma GetLatency_double_examples:
  "GetLatency exampleCollaborators (construct exampleCollaborators)
     (HoldsLimiterSettings (exampleSettings\<lparr>lookaheadMs := 1429714167419205 / 2 ^ 53\<rparr>))
     44100
   = Inr 6
   \<and> GetLatency_double exampleCollaborators (construct exampleCollaborators)
       (HoldsCompressorSettings exampleSettings) 48000 = Inr 48
   \<and> GetLatency_double exampleCollaborators (construct exampleCollaborators)
       (HoldsCompressorSettings (exampleSettings\<lparr>lookaheadMs := 65 / 64\<rparr>)) 48000 = Inr 48"
  by (simp add: GetLatency_double_def GetLatency_def GetDynamicRangeProcessorSettings_def
      exampleCollaborators_def exampleSettings_def double_times_def double_divide_def
      to_SampleCount_def binary64_round_def binary64_exponent_numeral power_of_2_def
      round_half_even_def Let_def)




section \<open>GetMaxDbIncrease\<close>

lemma GetMaxDbIncrease_loop_all_below:
  "blockLen \<le> length inBuf \<Longrightarrow> \<forall>j. i \<le> j \<and> j < blockLen \<longrightarrow> \<bar>inBuf ! j\<bar> < 1 / 1000000 \<Longrightarrow>
   GetMaxDbIncrease_loop inBuf outBuf blockLen i leastRatio = Inr leastRatio"
proof (induction inBuf outBuf blockLen i leastRatio rule: GetMaxDbIncrease_loop.induct)
  case (1 inBuf outBuf blockLen i leastRatio)
  show ?case
  proof (cases "i < blockLen")
    case True
    with "1.prems" have below: "\<bar>inBuf ! i\<bar> < 1 / 1000000" and inr: "\<not> length inBuf \<le> i"
      by auto
    have "GetMaxDbIncrease_loop inBuf outBuf blockLen (i + 1) leastRatio = Inr leastRatio"
      using "1.IH"(1) [OF True inr below] "1.prems" by auto
    then show ?thesis
      using True below inr by (subst GetMaxDbIncrease_loop.simps) simp
  next
    case False
    then show ?thesis by (subst GetMaxDbIncrease_loop.simps) simp
  qed
qed

lemma GetMaxDbIncrease_loop_bounded:
  "blockLen \<le> length inBuf \<Longrightarrow> blockLen \<le> length outBuf \<Longrightarrow>
   \<forall>j<blockLen. \<bar>outBuf ! j\<bar> \<le> \<bar>inBuf ! j\<bar> \<Longrightarrow> 0 \<le> leastRatio \<Longrightarrow> leastRatio \<le> 1 \<Longrightarrow>
   \<exists>r. GetMaxDbIncrease_loop inBuf outBuf blockLen i leastRatio = Inr r \<and> 0 \<le> r \<and> r \<le> 1"
proof (induction inBuf outBuf blockLen i leastRatio rule: GetMaxDbIncrease_loop.induct)
  case (1 inBuf outBuf blockLen i leastRatio)
  show ?case
  proof (cases "i < blockLen")
    case False
    then show ?thesis using "1.prems" by (subst GetMaxDbIncrease_loop.simps) simp
  next
    case True
    with "1.prems" have inr: "\<not> length inBuf \<le> i" and outr: "\<not> length outBuf \<le> i"
      and le: "\<bar>outBuf ! i\<bar> \<le> \<bar>inBuf ! i\<bar>"
      by auto
    show ?thesis
    proof (cases "\<bar>inBuf ! i\<bar> < 1 / 1000000")
      case below: True
      show ?thesis
        using "1.IH"(1) [OF True inr below] "1.prems" True inr below
        by (subst GetMaxDbIncrease_loop.simps) simp
    next
      case above: False
      then have pos: "0 < \<bar>inBuf ! i\<bar>" by linarith
      have r1: "\<bar>outBuf ! i\<bar> / \<bar>inBuf ! i\<bar> \<le> 1"
        using le pos by simp
      have r0: "0 \<le> \<bar>outBuf ! i\<bar> / \<bar>inBuf ! i\<bar>"
        by simp
      have "0 \<le> max (\<bar>outBuf ! i\<bar> / \<bar>inBuf ! i\<bar>) leastRatio"
        and "max (\<bar>outBuf ! i\<bar> / \<bar>inBuf ! i\<bar>) leastRatio \<le> 1"
        using r0 r1 "1.prems" by auto
      then show ?thesis
        using "1.IH"(2) [OF True inr above outr] "1.prems" True inr above outr
        by (subst GetMaxDbIncrease_loop.simps) simp
    qed
  qed
qed

lemma GetMaxDbIncrease_loop_agree:
  "blockLen \<le> length inBuf \<Longrightarrow> blockLen \<le> length inBuf' \<Longrightarrow>
   blockLen \<le> length outBuf \<Longrightarrow> blockLen \<le> length outBuf' \<Longrightarrow>
   \<forall>j<blockLen. if \<bar>inBuf ! j\<bar> < 1 / 1000000 then \<bar>inBuf' ! j\<bar> < 1 / 1000000
                 else inBuf' ! j = inBuf ! j \<and> outBuf' ! j = outBuf ! j \<Longrightarrow>
   GetMaxDbIncrease_loop inBuf outBuf blockLen i leastRatio
     = GetMaxDbIncrease_loop inBuf' outBuf' blockLen i leastRatio"
proof (induction inBuf outBuf blockLen i leastRatio rule: GetMaxDbIncrease_loop.induct)
  case (1 inBuf outBuf blockLen i leastRatio)
  show ?case
  proof (cases "i < blockLen")
    case False
    then show ?thesis
      by (subst GetMaxDbIncrease_loop.simps, subst (2) GetMaxDbIncrease_loop.simps) simp
  next
    case lt: True
    with "1.prems" have inr: "\<not> length inBuf \<le> i" and inr': "\<not> length inBuf' \<le> i"
      and outr: "\<not> length outBuf \<le> i" and outr': "\<not> length outBuf' \<le> i"
      by auto
    show ?thesis
    proof (cases "\<bar>inBuf ! i\<bar> < 1 / 1000000")
      case below: True
      then have "\<bar>inBuf' ! i\<bar> < 1 / 1000000"
        using "1.prems"(5) lt by auto
      then show ?thesis
        using "1.IH"(1) [OF lt inr below] "1.prems" lt inr inr' below
        by (subst GetMaxDbIncrease_loop.simps, subst (2) GetMaxDbIncrease_loop.simps) simp
    next
      case above: False
      then have "inBuf' ! i = inBuf ! i" and "outBuf' ! i = outBuf ! i"
        using "1.prems"(5) lt by auto
      then show ?thesis
        using "1.IH"(2) [OF lt inr above outr] "1.prems" lt inr inr' above outr outr'
        by (subst GetMaxDbIncrease_loop.simps, subst (2) GetMaxDbIncrease_loop.simps) simp
    qed
  qed
qed

text \<open>
  What the loop gives for a block pair of length \<open>blockLen\<close> in which no output sample is
  larger in magnitude than the input sample at its index: \<^verbatim>\<open>GetMaxDbIncrease\<close> returns
  \<open>-infinity\<close> when no input magnitude reaches \<open>1e-6\<close>, and in every case either
  \<open>-infinity\<close> or \<open>log2ToDb * FastLog2 r\<close> for a ratio \<open>r\<close> with \<open>0 < r \<le> 1\<close>. Whether that
  product is at most 0 dB is a property of \<^verbatim>\<open>FastLog2\<close> and \<^verbatim>\<open>log2ToDb\<close>, whose
  definitions are not in the sources.
\<close>

lemma GetMaxDbIncrease_ratio_at_most_1:
  assumes "blockLen \<le> length inBuf" and "blockLen \<le> length outBuf"
    and "\<forall>i<blockLen. \<bar>outBuf ! i\<bar> \<le> \<bar>inBuf ! i\<bar>"
  shows "\<exists>v. GetMaxDbIncrease log2ToDb FastLog2 inBuf outBuf blockLen = Inr v
           \<and> ((\<forall>i<blockLen. \<bar>inBuf ! i\<bar> < 1 / 1000000) \<longrightarrow> v = MinusInfinity)
           \<and> (v = MinusInfinity
                \<or> (\<exists>r. 0 < r \<and> r \<le> 1 \<and> v = Decibels (log2ToDb * FastLog2 r)))"
proof -
  obtain r where r: "GetMaxDbIncrease_loop inBuf outBuf blockLen 0 0 = Inr r"
    and r0: "0 \<le> r" and r1: "r \<le> 1"
    using GetMaxDbIncrease_loop_bounded [OF assms, of 0 0] by auto
  define v where "v = (if r = 0 then MinusInfinity else Decibels (log2ToDb * FastLog2 r))"
  have res: "GetMaxDbIncrease log2ToDb FastLog2 inBuf outBuf blockLen = Inr v"
    by (simp add: GetMaxDbIncrease_def r v_def)
  have silent: "v = MinusInfinity" if "\<forall>i<blockLen. \<bar>inBuf ! i\<bar> < 1 / 1000000"
  proof -
    have "GetMaxDbIncrease_loop inBuf outBuf blockLen 0 0 = Inr 0"
      using assms(1) that by (intro GetMaxDbIncrease_loop_all_below) auto
    with r show ?thesis by (simp add: v_def)
  qed
  have shape: "v = MinusInfinity \<or> (\<exists>r. 0 < r \<and> r \<le> 1 \<and> v = Decibels (log2ToDb * FastLog2 r))"
  proof (cases "r = 0")
    case True
    then show ?thesis by (simp add: v_def)
  next
    case False
    with r0 have "0 < r" by simp
    with r1 False show ?thesis by (auto simp: v_def)
  qed
  from res silent shape show ?thesis by blast
qed

text \<open>
  C10. Output samples at indices whose input magnitude is below \<open>1e-6\<close> are never read.
  When every input magnitude of the block is below \<open>1e-6\<close> the result is \<open>-infinity\<close>
  whatever the output buffer holds (it may even be shorter than the block). In general
  two block pairs give the same result when, at every index of the block, either both
  input magnitudes are below \<open>1e-6\<close> or the input magnitude is at least \<open>1e-6\<close> and the
  two pairs have the same input and the same output sample there.
\<close>

theorem GetMaxDbIncrease_ignores_silent_positions:
  assumes "blockLen \<le> length inBuf"
  shows "((\<forall>i<blockLen. \<bar>inBuf ! i\<bar> < 1 / 1000000) \<longrightarrow>
            GetMaxDbIncrease log2ToDb FastLog2 inBuf outBuf blockLen = Inr MinusInfinity)
         \<and> (blockLen \<le> length outBuf \<and> blockLen \<le> length inBuf'
              \<and> blockLen \<le> length outBuf'
              \<and> (\<forall>i<blockLen. if \<bar>inBuf ! i\<bar> < 1 / 1000000 then \<bar>inBuf' ! i\<bar> < 1 / 1000000
                               else inBuf' ! i = inBuf ! i \<and> outBuf' ! i = outBuf ! i) \<longrightarrow>
            GetMaxDbIncrease log2ToDb FastLog2 inBuf outBuf blockLen
              = GetMaxDbIncrease log2ToDb FastLog2 inBuf' outBuf' blockLen)"
proof (intro conjI impI)
  assume "\<forall>i<blockLen. \<bar>inBuf ! i\<bar> < 1 / 1000000"
  then have "GetMaxDbIncrease_loop inBuf outBuf blockLen 0 0 = Inr 0"
    using assms by (intro GetMaxDbIncrease_loop_all_below) auto
  then show "GetMaxDbIncrease log2ToDb FastLog2 inBuf outBuf blockLen = Inr MinusInfinity"
    by (simp add: GetMaxDbIncrease_def)
next
  assume "blockLen \<le> length outBuf \<and> blockLen \<le> length inBuf' \<and> blockLen \<le> length outBuf'
    \<and> (\<forall>i<blockLen. if \<bar>inBuf ! i\<bar> < 1 / 1000000 then \<bar>inBuf' ! i\<bar> < 1 / 1000000
                     else inBuf' ! i = inBuf ! i \<and> outBuf' ! i = outBuf ! i)"
  with assms have "GetMaxDbIncrease_loop inBuf outBuf blockLen 0 0
               = GetMaxDbIncrease_loop inBuf' outBuf' blockLen 0 0"
    by (intro GetMaxDbIncrease_loop_agree) auto
  then show "GetMaxDbIncrease log2ToDb FastLog2 inBuf outBuf blockLen
               = GetMaxDbIncrease log2ToDb FastLog2 inBuf' outBuf' blockLen"
    by (simp add: GetMaxDbIncrease_def)
qed

theorem GetMaxDbIncrease_ignores_silent_positions_witness:
  "GetMaxDbIncrease 6 (\<lambda>x. x - 1) [1 / 10000000, 0] [1000, - 7] 2 = Inr MinusInfinity
   \<and> GetMaxDbIncrease 6 (\<lambda>x. x - 1) [1 / 2, 0] [1 / 4, 1000] 2
       = GetMaxDbIncrease 6 (\<lambda>x. x - 1) [1 / 2, 1 / 10000000] [1 / 4, - 7] 2"
proof -
  have 1: "(2::nat) \<le> length [1 / 10000000, 0 :: real]" by simp
  have 2: "(2::nat) \<le> length [1 / 2, 0 :: real]" by simp
  have 3: "\<forall>i<2::nat. \<bar>[1 / 10000000, 0 :: real] ! i\<bar> < 1 / 1000000"
    by (simp add: less_Suc_eq numeral_2_eq_2)
  have 4: "(2::nat) \<le> length [1 / 4, 1000 :: real]
      \<and> (2::nat) \<le> length [1 / 2, 1 / 10000000 :: real]
      \<and> (2::nat) \<le> length [1 / 4, - 7 :: real]
      \<and> (\<forall>i<2::nat. if \<bar>[1 / 2, 0 :: real] ! i\<bar> < 1 / 1000000
                      then \<bar>[1 / 2, 1 / 10000000 :: real] ! i\<bar> < 1 / 1000000
                      else [1 / 2, 1 / 10000000 :: real] ! i = [1 / 2, 0] ! i
                           \<and> [1 / 4, - 7 :: real] ! i = [1 / 4, 1000] ! i)"
    by (simp add: less_Suc_eq numeral_2_eq_2)
  from GetMaxDbIncrease_ignores_silent_positions [OF 1, of 6 "\<lambda>x. x - 1" "[1000, - 7]"]
    GetMaxDbIncrease_ignores_silent_positions
      [OF 2, of 6 "\<lambda>x. x - 1" "[1 / 4, 1000]" "[1 / 2, 1 / 10000000]" "[1 / 4, - 7]"]
    3 4
  show ?thesis
    by simp
qed

end
